theory Spec2Isabelle
  imports Complex_Main
begin

section \<open>Python values, dictionaries and errors\<close>

text \<open>
  The class \<^verbatim>\<open>SingleVariantSet\<close> of
  \<^verbatim>\<open>baseplate/lib/experiments/variant_sets/single_variant_set.py\<close> receives a list of
  dictionaries of type \<^verbatim>\<open>Dict[str, Any]\<close>. A dictionary is a partial map from keys to
  values; a value is \<^verbatim>\<open>None\<close>, a string (the variant name) or a number (the variant
  size). Numbers are exact reals: a Python \<^verbatim>\<open>int\<close> is represented exactly, a Python
  \<^verbatim>\<open>float\<close> is idealised (no rounding of sums and products, no NaN, no infinity).

  The class docstring gives the sizes as floats. A string under \<^verbatim>\<open>size\<close> never passes
  validation: the sum of two strings is their concatenation, whose comparison with
  \<^verbatim>\<open>0.0\<close> raises \<^verbatim>\<open>TypeError\<close>, and every other sum with a string raises it at once.
  The product of a string and the bucket count, which only an object that skipped
  validation could compute, is therefore not modelled as repetition: \<open>py_mul_int\<close> returns
  \<open>TypeError\<close> on every value that is not a number.
\<close>

datatype pyval = PyNone | PyStr string | PyNum real

datatype error = ValueError string | TypeError | KeyError string | IndexError

type_synonym pydict = "string \<rightharpoonup> pyval"

definition and_then :: "error + 'a \<Rightarrow> ('a \<Rightarrow> error + 'b) \<Rightarrow> error + 'b" where
  \<comment> \<open>sequencing of two computations: an exception raised by the first one propagates\<close>
  "and_then m f = (case m of Inl e \<Rightarrow> Inl e | Inr x \<Rightarrow> f x)"

definition py_index :: "'a list \<Rightarrow> nat \<Rightarrow> error + 'a" where
  \<comment> \<open>\<^verbatim>\<open>xs[i]\<close> for a literal index \<open>i \<ge> 0\<close>\<close>
  "py_index xs i = (if i < length xs then Inr (xs ! i) else Inl IndexError)"

definition dict_get :: "pydict \<Rightarrow> string \<Rightarrow> pyval" where
  \<comment> \<open>\<^verbatim>\<open>d.get(k)\<close>: \<^verbatim>\<open>None\<close> for a missing key\<close>
  "dict_get d k = (case d k of None \<Rightarrow> PyNone | Some v \<Rightarrow> v)"

definition dict_getitem :: "pydict \<Rightarrow> string \<Rightarrow> error + pyval" where
  \<comment> \<open>\<^verbatim>\<open>d[k]\<close>: raises \<^verbatim>\<open>KeyError\<close> for a missing key\<close>
  "dict_getitem d k = (case d k of None \<Rightarrow> Inl (KeyError k) | Some v \<Rightarrow> Inr v)"

fun py_add :: "pyval \<Rightarrow> pyval \<Rightarrow> error + pyval" where
  \<comment> \<open>\<^verbatim>\<open>a + b\<close>: numbers are added, strings concatenated\<close>
  "py_add (PyNum a) (PyNum b) = Inr (PyNum (a + b))"
| "py_add (PyStr a) (PyStr b) = Inr (PyStr (a @ b))"
| "py_add _ _ = Inl TypeError"

fun py_lt_float :: "pyval \<Rightarrow> real \<Rightarrow> error + bool" where
  \<comment> \<open>\<^verbatim>\<open>a < c\<close> for a float literal \<open>c\<close>\<close>
  "py_lt_float (PyNum a) c = Inr (a < c)"
| "py_lt_float _ c = Inl TypeError"

fun py_gt_float :: "pyval \<Rightarrow> real \<Rightarrow> error + bool" where
  \<comment> \<open>\<^verbatim>\<open>a > c\<close> for a float literal \<open>c\<close>\<close>
  "py_gt_float (PyNum a) c = Inr (a > c)"
| "py_gt_float _ c = Inl TypeError"

fun py_mul_int :: "pyval \<Rightarrow> int \<Rightarrow> error + real" where
  \<comment> \<open>\<^verbatim>\<open>a * n\<close> for a size \<open>a\<close> and an integer \<open>n\<close>; a size that is not a number
      never passes validation (lemma \<open>init_Inr_D\<close>)\<close>
  "py_mul_int (PyNum a) n = Inr (a * of_int n)"
| "py_mul_int _ n = Inl TypeError"

definition py_int :: "real \<Rightarrow> int" where
  \<comment> \<open>\<^verbatim>\<open>int(x)\<close> on a float: truncation towards zero\<close>
  "py_int x = (if 0 \<le> x then \<lfloor>x\<rfloor> else \<lceil>x\<rceil>)"

section \<open>The class SingleVariantSet\<close>

record SingleVariantSet =
  variants :: "pydict list option"
  num_buckets :: int

definition validate_variants :: "SingleVariantSet \<Rightarrow> error + unit" where
  "validate_variants self =
     (case variants self of
        None \<Rightarrow> Inl (ValueError ''No variants provided'')
      | Some vs \<Rightarrow>
          if length vs \<noteq> 2 then
            Inl (ValueError ''Single Variant experiments expect only one variant and one control.'')
          else if dict_get (vs ! 0) ''size'' = PyNone \<or> dict_get (vs ! 1) ''size'' = PyNone then
            Inl (ValueError ''Variant size not provided'')
          else
            and_then (dict_getitem (vs ! 0) ''size'') (\<lambda>size0.
            and_then (dict_getitem (vs ! 1) ''size'') (\<lambda>size1.
            and_then (py_add size0 size1) (\<lambda>total_size.
            and_then (py_lt_float total_size 0) (\<lambda>below.
              if below then Inl (ValueError ''Sum of all variants must be between 0 and 1.'')
              else
                and_then (py_gt_float total_size 1) (\<lambda>above.
                  if above then Inl (ValueError ''Sum of all variants must be between 0 and 1.'')
                  else Inr ()))))))"

definition init :: "pydict list option \<Rightarrow> int \<Rightarrow> error + SingleVariantSet" where
  \<comment> \<open>\<^verbatim>\<open>__init__\<close>: the object exists only if validation does not raise\<close>
  "init vs n =
     (let self = \<lparr>variants = vs, num_buckets = n\<rparr>
      in and_then (validate_variants self) (\<lambda>_. Inr self))"

definition init_default :: "pydict list option \<Rightarrow> error + SingleVariantSet" where
  \<comment> \<open>\<^verbatim>\<open>num_buckets\<close> defaults to 1000\<close>
  "init_default vs = init vs 1000"

definition contains :: "SingleVariantSet \<Rightarrow> string \<Rightarrow> error + bool" where
  \<comment> \<open>\<^verbatim>\<open>__contains__\<close>; the second operand of \<^verbatim>\<open>or\<close> is evaluated only if the
      first comparison is false\<close>
  "contains self item =
     (case variants self of
        None \<Rightarrow> Inl TypeError
      | Some vs \<Rightarrow>
          and_then (py_index vs 0) (\<lambda>v0.
            if dict_get v0 ''name'' = PyStr item then Inr True
            else
              and_then (py_index vs 1) (\<lambda>v1.
                if dict_get v1 ''name'' = PyStr item then Inr True else Inr False)))"

definition choose_variant :: "SingleVariantSet \<Rightarrow> int \<Rightarrow> error + pyval" where
  "choose_variant self bucket =
     (case variants self of
        None \<Rightarrow> Inl TypeError
      | Some vs \<Rightarrow>
          and_then (py_index vs 0) (\<lambda>v0.
          and_then (dict_getitem v0 ''size'') (\<lambda>size0.
          and_then (py_mul_int size0 (num_buckets self)) (\<lambda>x0.
            if bucket < py_int x0 then dict_getitem v0 ''name''
            else
              and_then (py_index vs 1) (\<lambda>v1.
              and_then (dict_getitem v1 ''size'') (\<lambda>size1.
              and_then (py_mul_int size1 (num_buckets self)) (\<lambda>x1.
                if bucket \<ge> num_buckets self - py_int x1 then dict_getitem v1 ''name''
                else Inr PyNone)))))))"

section \<open>Statements of the specification, for comparison with the code\<close>








section \<open>Configurations used in the examples\<close>

definition variant :: "string \<Rightarrow> real \<Rightarrow> pydict" where
  \<comment> \<open>the dictionary \<^verbatim>\<open>{"name": nm, "size": sz}\<close>\<close>
  "variant nm sz = [''name'' \<mapsto> PyStr nm, ''size'' \<mapsto> PyNum sz]"

definition two_variants :: "real \<Rightarrow> real \<Rightarrow> pydict list option" where
  \<comment> \<open>the list \<^verbatim>\<open>[{"name": "A", "size": a}, {"name": "B", "size": b}]\<close>\<close>
  "two_variants a b = Some [variant ''A'' a, variant ''B'' b]"

definition nameless :: "real \<Rightarrow> pydict" where
  \<comment> \<open>the dictionary \<^verbatim>\<open>{"size": sz}\<close>, with no \<^verbatim>\<open>name\<close> entry\<close>
  "nameless sz = [''size'' \<mapsto> PyNum sz]"

section \<open>Evaluation of the operations\<close>

lemma and_then_Inl [simp]: "and_then (Inl e) f = Inl e"
  by (simp add: and_then_def)

lemma and_then_Inr [simp]: "and_then (Inr x) f = f x"
  by (simp add: and_then_def)

lemma dict_getitem_Some: "d k = Some v \<Longrightarrow> dict_getitem d k = Inr v"
  by (simp add: dict_getitem_def)


lemma dict_get_Some: "d k = Some v \<Longrightarrow> dict_get d k = v"
  by (simp add: dict_get_def)

lemma variant_size [simp]: "variant nm sz ''size'' = Some (PyNum sz)"
  by (simp add: variant_def)

lemma variant_name [simp]: "variant nm sz ''name'' = Some (PyStr nm)"
  by (simp add: variant_def)

lemma nameless_size [simp]: "nameless sz ''size'' = Some (PyNum sz)"
  by (simp add: nameless_def)

lemma nameless_name [simp]: "nameless sz ''name'' = None"
  by (simp add: nameless_def)

lemma two_variants_eq:
  "two_variants a b = Some [d0, d1] \<longleftrightarrow> d0 = variant ''A'' a \<and> d1 = variant ''B'' b"
  by (auto simp: two_variants_def)


subsection \<open>Truncation towards zero\<close>






subsection \<open>Construction\<close>

lemma init_two:
  assumes "d0 ''size'' = Some (PyNum p0)" and "d1 ''size'' = Some (PyNum p1)"
  shows "init (Some [d0, d1]) n =
           (if p0 + p1 < 0 \<or> p0 + p1 > 1
            then Inl (ValueError ''Sum of all variants must be between 0 and 1.'')
            else Inr \<lparr>variants = Some [d0, d1], num_buckets = n\<rparr>)"
  using assms
  by (simp add: init_def validate_variants_def dict_get_Some dict_getitem_Some)

lemma init_two_variants:
  "init (two_variants a b) n =
     (if a + b < 0 \<or> a + b > 1
      then Inl (ValueError ''Sum of all variants must be between 0 and 1.'')
      else Inr \<lparr>variants = two_variants a b, num_buckets = n\<rparr>)"
  unfolding two_variants_def by (rule init_two) simp_all


lemma init_Inr_D:
  assumes "init vs n = Inr s"
  shows "\<exists>d0 d1 p0 p1. vs = Some [d0, d1] \<and> d0 ''size'' = Some (PyNum p0) \<and>
           d1 ''size'' = Some (PyNum p1) \<and> 0 \<le> p0 + p1 \<and> p0 + p1 \<le> 1 \<and>
           s = \<lparr>variants = vs, num_buckets = n\<rparr>"
proof -
  from assms obtain xs where vs: "vs = Some xs"
    by (cases vs) (auto simp: init_def validate_variants_def)
  from assms vs have len: "length xs = 2"
    by (auto simp: init_def validate_variants_def split: if_splits)
  then obtain d0 d1 where xs: "xs = [d0, d1]"
    by (cases xs; cases "tl xs") auto
  from assms vs xs obtain v0 v1 where v: "d0 ''size'' = Some v0" "d1 ''size'' = Some v1"
    by (cases "d0 ''size''"; cases "d1 ''size''")
       (auto simp: init_def validate_variants_def dict_get_def)
  from assms vs xs v obtain p0 p1 where p: "v0 = PyNum p0" "v1 = PyNum p1"
    by (cases v0; cases v1)
       (auto simp: init_def validate_variants_def dict_get_def dict_getitem_Some)
  from assms vs xs v p show ?thesis
    by (auto simp: init_two [of d0 p0 d1 p1] split: if_splits)
qed



lemma validate_variants_num_buckets:
  "validate_variants \<lparr>variants = vs, num_buckets = n\<rparr> =
   validate_variants \<lparr>variants = vs, num_buckets = m\<rparr>"
  by (simp add: validate_variants_def)

subsection \<open>Queries on a pair of variants\<close>

lemma choose_variant_two:
  assumes "d0 ''size'' = Some (PyNum p0)" and "d1 ''size'' = Some (PyNum p1)"
  shows "choose_variant \<lparr>variants = Some [d0, d1], num_buckets = n\<rparr> b =
           (if b < py_int (p0 * of_int n) then dict_getitem d0 ''name''
            else if b \<ge> n - py_int (p1 * of_int n) then dict_getitem d1 ''name''
            else Inr PyNone)"
  using assms
  by (simp add: choose_variant_def py_index_def dict_getitem_Some)


lemma choose_two_variants:
  "choose_variant \<lparr>variants = two_variants a b, num_buckets = n\<rparr> i =
     (if i < py_int (a * of_int n) then Inr (PyStr ''A'')
      else if i \<ge> n - py_int (b * of_int n) then Inr (PyStr ''B'')
      else Inr PyNone)"
  unfolding two_variants_def
  by (simp add: choose_variant_two [of _ a _ b] dict_getitem_Some)

lemma contains_two:
  "contains \<lparr>variants = Some [d0, d1], num_buckets = n\<rparr> item =
     Inr (d0 ''name'' = Some (PyStr item) \<or> d1 ''name'' = Some (PyStr item))"
  by (cases "d0 ''name''"; cases "d1 ''name''")
     (auto simp: contains_def py_index_def dict_get_def)


section \<open>The partition rule\<close>




section \<open>Boundary behaviour on the 40/30 split\<close>

text \<open>
  C2. With the variants \<open>[(A, 0.4), (B, 0.3)]\<close> and 1000 buckets (the default) the object
  is constructed, and \<open>choose_variant\<close> returns \<open>A\<close> for the buckets 0 and 399, \<^verbatim>\<open>None\<close>
  for 400 and 699, and \<open>B\<close> for 700 and 999.
\<close>

theorem choose_variant_boundaries:
  "init_default (two_variants 0.4 0.3) = Inr \<lparr>variants = two_variants 0.4 0.3, num_buckets = 1000\<rparr>
   \<and> choose_variant \<lparr>variants = two_variants 0.4 0.3, num_buckets = 1000\<rparr> 0 = Inr (PyStr ''A'')
   \<and> choose_variant \<lparr>variants = two_variants 0.4 0.3, num_buckets = 1000\<rparr> 399 = Inr (PyStr ''A'')
   \<and> choose_variant \<lparr>variants = two_variants 0.4 0.3, num_buckets = 1000\<rparr> 400 = Inr PyNone
   \<and> choose_variant \<lparr>variants = two_variants 0.4 0.3, num_buckets = 1000\<rparr> 699 = Inr PyNone
   \<and> choose_variant \<lparr>variants = two_variants 0.4 0.3, num_buckets = 1000\<rparr> 700 = Inr (PyStr ''B'')
   \<and> choose_variant \<lparr>variants = two_variants 0.4 0.3, num_buckets = 1000\<rparr> 999 = Inr (PyStr ''B'')"
  by (simp add: init_default_def init_two_variants choose_two_variants py_int_def)

section \<open>Construction and its errors\<close>



text \<open>
  The bucket count is stored and never examined: \<open>validate_variants\<close> reads only the
  variant list. A bucket count of zero and a negative one are both accepted.
\<close>

theorem init_accepts_nonpositive_num_buckets:
  "init (two_variants 0.5 0.5) 0 = Inr \<lparr>variants = two_variants 0.5 0.5, num_buckets = 0\<rparr>
   \<and> init (two_variants 0.5 0.5) (- 5) = Inr \<lparr>variants = two_variants 0.5 0.5, num_buckets = - 5\<rparr>"
  by (simp add: init_two_variants)

text \<open>
  C4 (amended). Construction performs no check of the bucket count: whether it succeeds or
  fails, and with which error, does not depend on the bucket count, and a constructed object
  stores the bucket count it was given, whatever its sign.
\<close>

theorem init_ignores_num_buckets:
  "init vs m = (case init vs n of Inl e \<Rightarrow> Inl e | Inr s \<Rightarrow> Inr (s\<lparr>num_buckets := m\<rparr>))
   \<and> (\<forall>s. init vs n = Inr s \<longrightarrow> num_buckets s = n)"
proof -
  have "validate_variants \<lparr>variants = vs, num_buckets = m\<rparr> =
        validate_variants \<lparr>variants = vs, num_buckets = n\<rparr>"
    by (rule validate_variants_num_buckets)
  then have "init vs m = (case init vs n of Inl e \<Rightarrow> Inl e | Inr s \<Rightarrow> Inr (s\<lparr>num_buckets := m\<rparr>))"
    by (cases "validate_variants \<lparr>variants = vs, num_buckets = n\<rparr>") (simp_all add: init_def)
  moreover have "\<forall>s. init vs n = Inr s \<longrightarrow> num_buckets s = n"
    using init_Inr_D by fastforce
  ultimately show ?thesis by blast
qed

theorem init_ignores_num_buckets_witness:
  "init (two_variants 0.5 0.5) 0 =
     (case init (two_variants 0.5 0.5) 1000 of Inl e \<Rightarrow> Inl e | Inr s \<Rightarrow> Inr (s\<lparr>num_buckets := 0\<rparr>))
   \<and> init (two_variants 0.5 0.5) 1000 = Inr \<lparr>variants = two_variants 0.5 0.5, num_buckets = 1000\<rparr>
   \<and> num_buckets \<lparr>variants = two_variants 0.5 0.5, num_buckets = 1000\<rparr> = 1000"
proof -
  have i: "init (two_variants 0.5 0.5) 1000 =
           Inr \<lparr>variants = two_variants 0.5 0.5, num_buckets = 1000\<rparr>"
    by (simp add: init_two_variants)
  from init_ignores_num_buckets [of "two_variants 0.5 0.5" 0 1000] i show ?thesis
    by blast
qed

section \<open>Totality of the queries\<close>




section \<open>Stability when the low variant grows\<close>



section \<open>Sizes that sum to one\<close>




section \<open>A variant of size zero\<close>




section \<open>Membership\<close>

text \<open>
  C9. On a constructed object, \<open>contains\<close> returns \<^verbatim>\<open>True\<close> if and only if the string is equal,
  character by character, to the name of one of the two variants. The answer does not
  depend on the sizes: it is the same for the object with any other \<^verbatim>\<open>size\<close> entries and any
  other bucket count. The function returns a boolean only, so the object is not changed.
\<close>

theorem contains_iff_name:
  assumes "init vs n = Inr s"
  shows "\<exists>d0 d1. vs = Some [d0, d1] \<and>
           (\<forall>item. contains s item =
                     Inr (d0 ''name'' = Some (PyStr item) \<or> d1 ''name'' = Some (PyStr item))) \<and>
           (\<forall>item x y m.
              contains \<lparr>variants = Some [d0(''size'' := x), d1(''size'' := y)], num_buckets = m\<rparr> item =
              contains s item)"
proof -
  from init_Inr_D [OF assms] obtain d0 d1 where
    h: "vs = Some [d0, d1]" "s = \<lparr>variants = vs, num_buckets = n\<rparr>"
    by blast
  then show ?thesis by (simp add: contains_two)
qed

theorem contains_iff_name_witness:
  "contains \<lparr>variants = two_variants 0 1, num_buckets = 10\<rparr> ''A'' = Inr True
   \<and> contains \<lparr>variants = two_variants 0 1, num_buckets = 10\<rparr> ''B'' = Inr True
   \<and> contains \<lparr>variants = two_variants 0 1, num_buckets = 10\<rparr> ''a'' = Inr False
   \<and> contains \<lparr>variants = two_variants 0 1, num_buckets = 10\<rparr> ''AB'' = Inr False"
proof -
  let ?s = "\<lparr>variants = two_variants 0 1, num_buckets = 10\<rparr>"
  have i: "init (two_variants 0 1) 10 = Inr ?s"
    by (simp add: init_two_variants)
  from contains_iff_name [OF i] obtain d0 d1 where
    d: "two_variants 0 1 = Some [d0, d1]"
    and c: "\<forall>item. contains ?s item =
                     Inr (d0 ''name'' = Some (PyStr item) \<or> d1 ''name'' = Some (PyStr item))"
    by blast
  from d have e: "d0 = variant ''A'' 0" "d1 = variant ''B'' 1"
    by (simp_all add: two_variants_eq)
  show ?thesis unfolding c [rule_format] e by simp
qed

section \<open>Disjointness of the two regions\<close>



end
